theory Spec2Isabelle
  imports Main "HOL-Library.Sublist"
begin

section \<open>Python values\<close>

text \<open>
  The values that occur in the notebook's dictionary literals.  A float literal such as
  \<^verbatim>\<open>1e-4\<close> or \<^verbatim>\<open>0.25\<close> is kept as the decimal the source writes,
  mantissa and power of ten: \<open>PyFloat 1 (-4)\<close>, \<open>PyFloat 25 (-2)\<close>.  No arithmetic is
  done on it.
\<close>

datatype pyval =
    PyNone
  | PyBool bool
  | PyInt int
  | PyFloat int int
  | PyStr string
  | PyList "pyval list"
  | PyDict "(string \<times> pyval) list"

fun is_scalar :: "pyval \<Rightarrow> bool" where
  "is_scalar (PyList _) = False"
| "is_scalar (PyDict _) = False"
| "is_scalar PyNone = False"
| "is_scalar _ = True"

fun is_numeric :: "pyval \<Rightarrow> bool" where
  "is_numeric (PyInt _) = True"
| "is_numeric (PyFloat _ _) = True"
| "is_numeric _ = False"

text \<open>A dictionary literal is flat when every value in it is a scalar.\<close>

definition flat :: "(string \<times> pyval) list \<Rightarrow> bool" where
  "flat d = list_all (\<lambda>kv. is_scalar (snd kv)) d"

datatype error = KeyError string | ValueError string

section \<open>The model script's constants\<close>

definition HEIGHT :: nat where
  \<comment> \<open>Modelled from the spec: \<^verbatim>\<open>HEIGHT\<close> is assigned in \<^verbatim>\<open>cifar10_cnn.py\<close>, which the
      notebook only prints; the data model fixes CIFAR-10 images as 32x32x3.\<close>
  "HEIGHT = 32"

definition WIDTH :: nat where
  \<comment> \<open>Modelled from the spec: \<^verbatim>\<open>WIDTH\<close> is assigned in \<^verbatim>\<open>cifar10_cnn.py\<close>; the data
      model fixes CIFAR-10 images as 32x32x3.\<close>
  "WIDTH = 32"

definition DEPTH :: nat where
  \<comment> \<open>Modelled from the spec: \<^verbatim>\<open>DEPTH\<close> is assigned in \<^verbatim>\<open>cifar10_cnn.py\<close>; the data
      model fixes CIFAR-10 images as 32x32x3.\<close>
  "DEPTH = 3"

definition NUM_CLASSES :: nat where
  \<comment> \<open>Modelled from the spec: \<^verbatim>\<open>NUM_CLASSES\<close> is assigned in \<^verbatim>\<open>cifar10_cnn.py\<close>; the
      data model fixes CIFAR-10 as a 10-class dataset.\<close>
  "NUM_CLASSES = 10"

section \<open>Keras layers and the Sequential model\<close>

datatype padding = Valid | Same

text \<open>
  The layer constructors with the arguments the notebook passes.  \<open>Conv2D\<close> carries
  filters, kernel size, padding (Keras defaults to \<^verbatim>\<open>'valid'\<close>), the optional
  \<^verbatim>\<open>name\<close> and the optional \<^verbatim>\<open>input_shape\<close>.
\<close>

datatype layer =
    Conv2D nat "nat \<times> nat" padding "string option" "nat list option"
  | Activation string
  | MaxPooling2D "nat \<times> nat"
  | Dropout pyval
  | Flatten
  | Dense nat

fun input_shape :: "layer \<Rightarrow> nat list option" where
  "input_shape (Conv2D _ _ _ _ shp) = shp"
| "input_shape _ = None"

fun layer_name :: "layer \<Rightarrow> string option" where
  "layer_name (Conv2D _ _ _ nm _) = nm"
| "layer_name _ = None"

text \<open>
  The framework's shape rule for one layer, on a shape without the batch dimension.
  A \<^verbatim>\<open>'valid'\<close> convolution or a pooling window that does not fit into the image is
  refused (the framework raises \<^verbatim>\<open>ValueError\<close> for the non-positive dimension).
\<close>

fun compute_output_shape :: "layer \<Rightarrow> nat list \<Rightarrow> nat list option" where
  "compute_output_shape (Conv2D filters (kh, kw) Same _ _) [h, w, c] = Some [h, w, filters]"
| "compute_output_shape (Conv2D filters (kh, kw) Valid _ _) [h, w, c] =
     (if 0 < kh \<and> 0 < kw \<and> kh \<le> h \<and> kw \<le> w
      then Some [h - kh + 1, w - kw + 1, filters] else None)"
| "compute_output_shape (Conv2D _ _ _ _ _) _ = None"
| "compute_output_shape (MaxPooling2D (ph, pw)) [h, w, c] =
     (if 0 < ph \<and> 0 < pw \<and> ph \<le> h \<and> pw \<le> w
      then Some [(h - ph) div ph + 1, (w - pw) div pw + 1, c] else None)"
| "compute_output_shape (MaxPooling2D _) _ = None"
| "compute_output_shape (Activation _) shp = Some shp"
| "compute_output_shape (Dropout _) shp = Some shp"
| "compute_output_shape Flatten shp = Some [prod_list shp]"
| "compute_output_shape (Dense units) shp =
     (if shp = [] then None else Some (butlast shp @ [units]))"

datatype optimizer = RMSPropOptimizer pyval pyval

record compile_args =
  loss :: string
  optimizer :: optimizer
  metrics :: "string list"

text \<open>
  A Sequential model: the layers added so far, the shape of its current output tensor
  (without the batch dimension; \<open>None\<close> while the model is not built) and the arguments
  of \<^verbatim>\<open>compile\<close> once it has been compiled.
\<close>

record keras_model =
  layers :: "layer list"
  outputs :: "nat list option"
  compiled :: "compile_args option"

definition Sequential :: keras_model where
  "Sequential = \<lparr>layers = [], outputs = None, compiled = None\<rparr>"

text \<open>
  \<^verbatim>\<open>model.add(layer)\<close>.  A model that is built (its first layer had an
  \<^verbatim>\<open>input_shape\<close>) applies the layer to its output at once and raises when the shape
  rule refuses; a model that is not built yet only records the layer.
\<close>

definition add :: "layer \<Rightarrow> keras_model \<Rightarrow> error + keras_model" where
  "add l m =
     (case (case outputs m of Some s \<Rightarrow> Some s | None \<Rightarrow> input_shape l) of
        None \<Rightarrow> Inr (m\<lparr>layers := layers m @ [l]\<rparr>)
      | Some s \<Rightarrow>
          (case compute_output_shape l s of
             None \<Rightarrow> Inl (ValueError ''Negative dimension size'')
           | Some s' \<Rightarrow> Inr (m\<lparr>layers := layers m @ [l], outputs := Some s'\<rparr>)))"

fun add_all :: "layer list \<Rightarrow> keras_model \<Rightarrow> error + keras_model" where
  "add_all [] m = Inr m"
| "add_all (l # ls) m = (case add l m of Inl e \<Rightarrow> Inl e | Inr m' \<Rightarrow> add_all ls m')"

definition compile :: "string \<Rightarrow> optimizer \<Rightarrow> string list \<Rightarrow> keras_model \<Rightarrow> keras_model" where
  "compile l opt ms m = m\<lparr>compiled := Some \<lparr>loss = l, optimizer = opt, metrics = ms\<rparr>\<rparr>"

text \<open>\<^verbatim>\<open>d[k]\<close> on a dictionary: the value, or \<^verbatim>\<open>KeyError\<close>.\<close>

definition getitem :: "(string \<rightharpoonup> pyval) \<Rightarrow> string \<Rightarrow> error + pyval" where
  "getitem d k = (case d k of None \<Rightarrow> Inl (KeyError k) | Some v \<Rightarrow> Inr v)"

text \<open>The eighteen \<^verbatim>\<open>model.add\<close> calls of \<^verbatim>\<open>keras_model_fn\<close>, in the order written.\<close>

definition keras_layers :: "layer list" where
  "keras_layers =
     [Conv2D 32 (3, 3) Same (Some ''inputs'') (Some [HEIGHT, WIDTH, DEPTH]),
      Activation ''relu'',
      Conv2D 32 (3, 3) Valid None None,
      Activation ''relu'',
      MaxPooling2D (2, 2),
      Dropout (PyFloat 25 (-2)),
      Conv2D 64 (3, 3) Same None None,
      Activation ''relu'',
      Conv2D 64 (3, 3) Valid None None,
      Activation ''relu'',
      MaxPooling2D (2, 2),
      Dropout (PyFloat 25 (-2)),
      Flatten,
      Dense 512,
      Activation ''relu'',
      Dropout (PyFloat 5 (-1)),
      Dense NUM_CLASSES,
      Activation ''softmax'']"

text \<open>
  \<^verbatim>\<open>keras_model_fn(hyperparameters)\<close>: build the layer stack, read the two
  hyperparameters (\<^verbatim>\<open>learning_rate\<close> first, then \<^verbatim>\<open>decay\<close>), build the optimizer,
  compile, return the model.
\<close>

definition keras_model_fn :: "(string \<rightharpoonup> pyval) \<Rightarrow> error + keras_model" where
  "keras_model_fn hyperparameters =
     (case add_all keras_layers Sequential of
        Inl e \<Rightarrow> Inl e
      | Inr model \<Rightarrow>
          (case getitem hyperparameters ''learning_rate'' of
             Inl e \<Rightarrow> Inl e
           | Inr lr \<Rightarrow>
               (case getitem hyperparameters ''decay'' of
                  Inl e \<Rightarrow> Inl e
                | Inr dc \<Rightarrow>
                    Inr (compile ''categorical_crossentropy'' (RMSPropOptimizer lr dc)
                           [''accuracy''] model))))"

text \<open>
  The shape a stack of layers gives to one sample, and the shape a model gives to a batch.
  The batch dimension is carried through.  A model whose first layer declares an
  \<^verbatim>\<open>input_shape\<close> refuses a batch whose samples have another shape (the framework
  raises \<^verbatim>\<open>ValueError\<close>); a model without a declared input shape is built on the
  batch it is given; a model without layers has nothing to apply.
\<close>

fun through_layers :: "layer list \<Rightarrow> nat list \<Rightarrow> nat list option" where
  "through_layers [] shp = Some shp"
| "through_layers (l # ls) shp =
     (case compute_output_shape l shp of None \<Rightarrow> None | Some s \<Rightarrow> through_layers ls s)"

definition predict_shape :: "keras_model \<Rightarrow> nat list \<Rightarrow> nat list option" where
  "predict_shape m batch =
     (case batch of
        [] \<Rightarrow> None
      | n # shp \<Rightarrow>
          (case layers m of
             [] \<Rightarrow> None
           | l # ls \<Rightarrow>
               (if (case input_shape l of None \<Rightarrow> True | Some declared \<Rightarrow> shp = declared)
                then (case through_layers (layers m) shp of
                        None \<Rightarrow> None
                      | Some s \<Rightarrow> Some (n # s))
                else None)))"

text \<open>
  The name of the input tensor of a Sequential model: the framework names the input layer
  it creates for the first layer by appending \<^verbatim>\<open>_input\<close> to that layer's name.
\<close>

definition input_layer_name :: "keras_model \<Rightarrow> string option" where
  "input_layer_name m =
     (case layers m of
        [] \<Rightarrow> None
      | l # _ \<Rightarrow> (case layer_name l of None \<Rightarrow> None | Some nm \<Rightarrow> Some (nm @ ''_input'')))"

section \<open>The input functions\<close>

record tensor =
  dtype :: string
  dims :: "nat option list"

record serving_input_receiver =
  features :: "(string \<times> tensor) list"
  receiver_tensors :: "(string \<times> tensor) list"

definition placeholder :: "string \<Rightarrow> nat option list \<Rightarrow> tensor" where
  "placeholder ty shp = \<lparr>dtype = ty, dims = shp\<rparr>"

text \<open>
  \<^verbatim>\<open>serving_input_fn(params)\<close>.  \<^verbatim>\<open>INPUT_TENSOR_NAME\<close> is assigned in
  \<^verbatim>\<open>cifar10_cnn.py\<close>, which the notebook only prints, and nothing else fixes its
  value: it is a parameter here.
\<close>

definition serving_input_fn :: "string \<Rightarrow> 'p \<Rightarrow> serving_input_receiver" where
  "serving_input_fn INPUT_TENSOR_NAME params =
     (let tensor = placeholder ''float32'' [None, Some HEIGHT, Some WIDTH, Some DEPTH];
          inputs = [(INPUT_TENSOR_NAME, tensor)]
      in \<lparr>features = inputs, receiver_tensors = inputs\<rparr>)"

text \<open>A concrete shape fits a placeholder shape when it agrees on every fixed dimension.\<close>

fun fits :: "nat option list \<Rightarrow> nat list \<Rightarrow> bool" where
  "fits [] [] = True"
| "fits (None # ds) (n # ns) = fits ds ns"
| "fits (Some d # ds) (n # ns) = (d = n \<and> fits ds ns)"
| "fits _ _ = False"

section \<open>The services behind the notebook\<close>

text \<open>
  The objects the SDK hands back.  A session is known by the default bucket of its
  account and region; an array by its shape (its entries are random); a predictor by
  the name of its endpoint.
\<close>

record session =
  default_bucket :: string

record estimator =
  entry_point :: string
  role :: string
  framework_version :: string
  hyperparameters :: "(string \<times> pyval) list"
  training_steps :: nat
  evaluation_steps :: nat
  train_instance_count :: nat
  train_instance_type :: string
  latest_training_job :: "string option"

record predictor =
  endpoint :: string

record ndarray =
  shape :: "nat list"

text \<open>Every call the notebook's code cells make outside their own code, with its arguments.\<close>

datatype call =
    Session
  | Get_execution_role
  | Cifar10_download
  | Upload_data session string string
  | Shell string
  | TensorFlow estimator
  | Fit estimator string
  | Deploy estimator nat string
  | Randn "nat list"
  | Predict predictor "(string \<times> ndarray) list"
  | Delete_endpoint session string

text \<open>The notebook's code cells that make calls, named by the heading above each.\<close>

datatype cell =
    Set_up_the_environment
  | Download_the_dataset
  | Upload_the_dataset
  | Complete_source_code
  | Create_a_training_job
  | Deploy_the_trained_model
  | Make_some_predictions
  | Cleaning_up

text \<open>
  What lies outside the notebook: the local disk, the object store and the platform's
  resources, with the journal of the calls issued so far.
\<close>

record world =
  journal :: "(cell \<times> call) list"
  local_dirs :: "string set"
  buckets :: "string set"
  objects :: "string set"
  training_jobs :: "string set"
  models :: "string set"
  endpoint_configs :: "string set"
  endpoints :: "string set"

text \<open>
  What the notebook does not decide: whether a call raises (by its position in the
  journal and its arguments) and the names the platform gives out.
\<close>

record 'e env =
  raises :: "nat \<Rightarrow> call \<Rightarrow> 'e option"
  bucket :: string
  execution_role :: string
  job_name :: string
  endpoint_name :: string

type_synonym ('e, 'a) action = "world \<Rightarrow> ('e \<times> world) + ('a \<times> world)"

text \<open>
  One call: it is entered in the journal; if it raises, the exception leaves with the
  world as it is, otherwise the call's effect takes place and its value is returned.
\<close>

definition external ::
  "'e env \<Rightarrow> cell \<Rightarrow> call \<Rightarrow> 'a \<Rightarrow> (world \<Rightarrow> world) \<Rightarrow> ('e, 'a) action" where
  "external env cl c r effect w =
     (let w' = w\<lparr>journal := journal w @ [(cl, c)]\<rparr>
      in case raises env (length (journal w)) c of
           Some e \<Rightarrow> Inl (e, w')
         | None \<Rightarrow> Inr (r, effect w'))"

text \<open>One statement after another: an exception ends the run where it is raised.\<close>

definition seq :: "('e, 'a) action \<Rightarrow> ('a \<Rightarrow> ('e, 'b) action) \<Rightarrow> ('e, 'b) action" where
  "seq m f w = (case m w of Inl x \<Rightarrow> Inl x | Inr (a, w') \<Rightarrow> f a w')"

definition s3_uri :: "string \<Rightarrow> string \<Rightarrow> string" where
  "s3_uri b k = ''s3://'' @ b @ ''/'' @ k"

definition new_session :: "'e env \<Rightarrow> cell \<Rightarrow> ('e, session) action" where
  "new_session env cl = external env cl Session \<lparr>default_bucket = bucket env\<rparr> id"

definition get_execution_role :: "'e env \<Rightarrow> cell \<Rightarrow> ('e, string) action" where
  "get_execution_role env cl = external env cl Get_execution_role (execution_role env) id"

definition cifar10_download :: "'e env \<Rightarrow> cell \<Rightarrow> ('e, unit) action" where
  \<comment> \<open>Modelled from the spec: \<^verbatim>\<open>utils.py\<close> is not part of the sources; the step downloads
      the dataset, and the next cell uploads it from \<^verbatim>\<open>/tmp/cifar10_data\<close>.\<close>
  "cifar10_download env cl =
     external env cl Cifar10_download ()
       (\<lambda>w. w\<lparr>local_dirs := insert ''/tmp/cifar10_data'' (local_dirs w)\<rparr>)"

text \<open>
  \<^verbatim>\<open>upload_data\<close> creates the session's default bucket when it is missing, stores the
  data under the key prefix and returns its address.
\<close>

definition upload_data :: "'e env \<Rightarrow> cell \<Rightarrow> session \<Rightarrow> string \<Rightarrow> string \<Rightarrow> ('e, string) action" where
  "upload_data env cl sess path key_prefix =
     external env cl (Upload_data sess path key_prefix)
       (s3_uri (default_bucket sess) key_prefix)
       (\<lambda>w. w\<lparr>buckets := insert (default_bucket sess) (buckets w),
              objects := insert (s3_uri (default_bucket sess) key_prefix) (objects w)\<rparr>)"

definition shell :: "'e env \<Rightarrow> cell \<Rightarrow> string \<Rightarrow> ('e, unit) action" where
  "shell env cl cmd = external env cl (Shell cmd) () id"

definition new_estimator :: "'e env \<Rightarrow> cell \<Rightarrow> estimator \<Rightarrow> ('e, estimator) action" where
  "new_estimator env cl est = external env cl (TensorFlow est) est id"

text \<open>
  \<^verbatim>\<open>fit\<close> returns when the training job has ended: the job exists, its model
  artifacts are in the object store, and the estimator remembers the job.
\<close>

definition fit :: "'e env \<Rightarrow> cell \<Rightarrow> estimator \<Rightarrow> string \<Rightarrow> ('e, estimator) action" where
  "fit env cl est inputs =
     external env cl (Fit est inputs)
       (est\<lparr>latest_training_job := Some (job_name env)\<rparr>)
       (\<lambda>w. w\<lparr>buckets := insert (bucket env) (buckets w),
              objects := insert (s3_uri (bucket env) (job_name env @ ''/output/model.tar.gz''))
                           (objects w),
              training_jobs := insert (job_name env) (training_jobs w)\<rparr>)"

text \<open>\<^verbatim>\<open>deploy\<close> creates a model, an endpoint configuration and the endpoint.\<close>

definition deploy :: "'e env \<Rightarrow> cell \<Rightarrow> estimator \<Rightarrow> nat \<Rightarrow> string \<Rightarrow> ('e, predictor) action" where
  "deploy env cl est initial_instance_count instance_type =
     external env cl (Deploy est initial_instance_count instance_type)
       \<lparr>endpoint = endpoint_name env\<rparr>
       (\<lambda>w. w\<lparr>models := insert (endpoint_name env) (models w),
              endpoint_configs := insert (endpoint_name env) (endpoint_configs w),
              endpoints := insert (endpoint_name env) (endpoints w)\<rparr>)"

definition randn :: "'e env \<Rightarrow> cell \<Rightarrow> nat list \<Rightarrow> ('e, ndarray) action" where
  "randn env cl ds = external env cl (Randn ds) \<lparr>shape = ds\<rparr> id"

definition predict :: "'e env \<Rightarrow> cell \<Rightarrow> predictor \<Rightarrow> (string \<times> ndarray) list \<Rightarrow> ('e, unit) action" where
  "predict env cl p request = external env cl (Predict p request) () id"

text \<open>\<^verbatim>\<open>delete_endpoint(name)\<close> removes the endpoint of that name and nothing else.\<close>

definition delete_endpoint :: "'e env \<Rightarrow> cell \<Rightarrow> session \<Rightarrow> string \<Rightarrow> ('e, unit) action" where
  "delete_endpoint env cl sess nm =
     external env cl (Delete_endpoint sess nm) ()
       (\<lambda>w. w\<lparr>endpoints := endpoints w - {nm}\<rparr>)"

section \<open>The notebook's cells\<close>

definition set_up_the_environment :: "'e env \<Rightarrow> ('e, session \<times> string) action" where
  "set_up_the_environment env =
     seq (new_session env Set_up_the_environment) (\<lambda>sagemaker_session.
     seq (get_execution_role env Set_up_the_environment) (\<lambda>role.
     (\<lambda>w. Inr ((sagemaker_session, role), w))))"

definition download_the_dataset :: "'e env \<Rightarrow> ('e, unit) action" where
  "download_the_dataset env = cifar10_download env Download_the_dataset"

definition upload_the_dataset :: "'e env \<Rightarrow> session \<Rightarrow> ('e, string) action" where
  "upload_the_dataset env sagemaker_session =
     upload_data env Upload_the_dataset sagemaker_session ''/tmp/cifar10_data'' ''data/DEMO-cifar10''"

definition complete_source_code :: "'e env \<Rightarrow> ('e, unit) action" where
  "complete_source_code env = shell env Complete_source_code ''cat cifar10_cnn.py''"

definition create_a_training_job :: "'e env \<Rightarrow> string \<Rightarrow> string \<Rightarrow> ('e, estimator) action" where
  "create_a_training_job env = (\<lambda>role inputs.
     seq (new_estimator env Create_a_training_job
            \<lparr>entry_point = ''cifar10_cnn.py'',
             role = role,
             framework_version = ''1.11.0'',
             hyperparameters = [(''learning_rate'', PyFloat 1 (-4)), (''decay'', PyFloat 1 (-6))],
             training_steps = 1000,
             evaluation_steps = 100,
             train_instance_count = 1,
             train_instance_type = ''ml.c4.xlarge'',
             latest_training_job = None\<rparr>) (\<lambda>estimator.
     fit env Create_a_training_job estimator inputs))"

definition deploy_the_trained_model :: "'e env \<Rightarrow> estimator \<Rightarrow> ('e, predictor) action" where
  "deploy_the_trained_model env estimator =
     deploy env Deploy_the_trained_model estimator 1 ''ml.m4.xlarge''"

definition make_some_predictions :: "'e env \<Rightarrow> predictor \<Rightarrow> ('e, unit) action" where
  "make_some_predictions env predictor =
     seq (randn env Make_some_predictions [1, 32, 32, 3]) (\<lambda>data.
     predict env Make_some_predictions predictor [(''inputs_input'', data)])"

definition cleaning_up :: "'e env \<Rightarrow> predictor \<Rightarrow> ('e, unit) action" where
  "cleaning_up env predictor =
     seq (new_session env Cleaning_up) (\<lambda>s.
     delete_endpoint env Cleaning_up s (endpoint predictor))"

text \<open>The notebook, run from the top: the variables a cell binds are passed to the cells below.\<close>

definition notebook :: "'e env \<Rightarrow> ('e, unit) action" where
  "notebook env =
     seq (set_up_the_environment env) (\<lambda>(sagemaker_session, role).
     seq (download_the_dataset env) (\<lambda>_.
     seq (upload_the_dataset env sagemaker_session) (\<lambda>inputs.
     seq (complete_source_code env) (\<lambda>_.
     seq (create_a_training_job env role inputs) (\<lambda>estimator.
     seq (deploy_the_trained_model env estimator) (\<lambda>predictor.
     seq (make_some_predictions env predictor) (\<lambda>_.
     cleaning_up env predictor)))))))"

text \<open>
  The cells above the deploy cell: the run up to the end of training, with the estimator
  it binds.
\<close>

definition notebook_through_training :: "'e env \<Rightarrow> ('e, estimator) action" where
  "notebook_through_training env =
     seq (set_up_the_environment env) (\<lambda>(sagemaker_session, role).
     seq (download_the_dataset env) (\<lambda>_.
     seq (upload_the_dataset env sagemaker_session) (\<lambda>inputs.
     seq (complete_source_code env) (\<lambda>_.
     create_a_training_job env role inputs))))"

section \<open>Observing a run\<close>

definition world_of :: "('e \<times> world) + ('a \<times> world) \<Rightarrow> world" where
  "world_of r = (case r of Inl (e, w) \<Rightarrow> w | Inr (a, w) \<Rightarrow> w)"

definition raised :: "('e \<times> world) + ('a \<times> world) \<Rightarrow> 'e option" where
  "raised r = (case r of Inl (e, w) \<Rightarrow> Some e | Inr (a, w) \<Rightarrow> None)"

text \<open>The calls a run of the notebook issues, in the order it issues them.\<close>

definition issued :: "'e env \<Rightarrow> world \<Rightarrow> (cell \<times> call) list" where
  "issued env w = drop (length (journal w)) (journal (world_of (notebook env w)))"

text \<open>The session and the estimator that the cells bind.\<close>

definition the_session :: "'e env \<Rightarrow> session" where
  "the_session env = \<lparr>default_bucket = bucket env\<rparr>"

definition the_estimator :: "'e env \<Rightarrow> estimator" where
  "the_estimator env =
     \<lparr>entry_point = ''cifar10_cnn.py'',
      role = execution_role env,
      framework_version = ''1.11.0'',
      hyperparameters = [(''learning_rate'', PyFloat 1 (-4)), (''decay'', PyFloat 1 (-6))],
      training_steps = 1000,
      evaluation_steps = 100,
      train_instance_count = 1,
      train_instance_type = ''ml.c4.xlarge'',
      latest_training_job = None\<rparr>"

text \<open>
  The calls of the notebook in the order of the document, each with the values it receives
  from the cells above it.
\<close>

definition document_order :: "'e env \<Rightarrow> (cell \<times> call) list" where
  "document_order env =
     [(Set_up_the_environment, Session),
      (Set_up_the_environment, Get_execution_role),
      (Download_the_dataset, Cifar10_download),
      (Upload_the_dataset, Upload_data (the_session env) ''/tmp/cifar10_data'' ''data/DEMO-cifar10''),
      (Complete_source_code, Shell ''cat cifar10_cnn.py''),
      (Create_a_training_job, TensorFlow (the_estimator env)),
      (Create_a_training_job,
         Fit (the_estimator env) (s3_uri (bucket env) ''data/DEMO-cifar10'')),
      (Deploy_the_trained_model,
         Deploy ((the_estimator env)\<lparr>latest_training_job := Some (job_name env)\<rparr>) 1
           ''ml.m4.xlarge''),
      (Make_some_predictions, Randn [1, 32, 32, 3]),
      (Make_some_predictions,
         Predict \<lparr>endpoint = endpoint_name env\<rparr> [(''inputs_input'', \<lparr>shape = [1, 32, 32, 3]\<rparr>)]),
      (Cleaning_up, Session),
      (Cleaning_up, Delete_endpoint (the_session env) (endpoint_name env))]"

text \<open>
  The first call of a list that raises when the calls are issued from journal position
  \<open>n\<close> on: its index and its exception.
\<close>

fun first_raise :: "'e env \<Rightarrow> nat \<Rightarrow> (cell \<times> call) list \<Rightarrow> (nat \<times> 'e) option" where
  "first_raise env n [] = None"
| "first_raise env n (c # cs) =
     (case raises env n (snd c) of
        Some e \<Rightarrow> Some (0, e)
      | None \<Rightarrow> (case first_raise env (Suc n) cs of
                   None \<Rightarrow> None
                 | Some (i, e) \<Rightarrow> Some (Suc i, e)))"

text \<open>An environment in which no call raises, and an empty world to start from.\<close>

definition quiet_env :: "string env" where
  "quiet_env =
     \<lparr>raises = (\<lambda>n c. None),
      bucket = ''sagemaker-us-east-1-123456789012'',
      execution_role = ''arn:aws:iam::123456789012:role/SageMakerRole'',
      job_name = ''sagemaker-tensorflow-job'',
      endpoint_name = ''sagemaker-tensorflow-endpoint''\<rparr>"

definition empty_world :: world where
  "empty_world =
     \<lparr>journal = [], local_dirs = {}, buckets = {}, objects = {}, training_jobs = {},
      models = {}, endpoint_configs = {}, endpoints = {}\<rparr>"

section \<open>Reading the journal\<close>

text \<open>The steps of the notebook's flow, and the step each calling cell belongs to.\<close>

datatype step =
    Create_session
  | Download_dataset
  | Upload_dataset
  | Train_model
  | Deploy_endpoint
  | Predict_once
  | Tear_down

fun step_of :: "cell \<Rightarrow> step option" where
  "step_of Set_up_the_environment = Some Create_session"
| "step_of Download_the_dataset = Some Download_dataset"
| "step_of Upload_the_dataset = Some Upload_dataset"
| "step_of Complete_source_code = None"
| "step_of Create_a_training_job = Some Train_model"
| "step_of Deploy_the_trained_model = Some Deploy_endpoint"
| "step_of Make_some_predictions = Some Predict_once"
| "step_of Cleaning_up = Some Tear_down"

definition steps_of :: "(cell \<times> call) list \<Rightarrow> step list" where
  "steps_of js = remdups_adj (List.map_filter (\<lambda>j. step_of (fst j)) js)"

text \<open>The prediction requests, the estimators and the training jobs found in a journal.\<close>

fun prediction_request :: "cell \<times> call \<Rightarrow> (predictor \<times> (string \<times> ndarray) list) option" where
  "prediction_request (_, Predict p request) = Some (p, request)"
| "prediction_request _ = None"

definition prediction_requests ::
  "(cell \<times> call) list \<Rightarrow> (predictor \<times> (string \<times> ndarray) list) list" where
  "prediction_requests js = List.map_filter prediction_request js"

fun training_estimator :: "cell \<times> call \<Rightarrow> estimator option" where
  "training_estimator (_, TensorFlow est) = Some est"
| "training_estimator (_, Fit est inputs) = Some est"
| "training_estimator _ = None"

definition training_estimators :: "(cell \<times> call) list \<Rightarrow> estimator list" where
  "training_estimators js = List.map_filter training_estimator js"

fun submitted_job :: "cell \<times> call \<Rightarrow> estimator option" where
  "submitted_job (_, Fit est inputs) = Some est"
| "submitted_job _ = None"

definition submitted_jobs :: "(cell \<times> call) list \<Rightarrow> estimator list" where
  "submitted_jobs js = List.map_filter submitted_job js"

text \<open>
  The interface a call belongs to, by the module the notebook takes it from:
  \<^verbatim>\<open>sagemaker\<close> is the platform's SDK, \<^verbatim>\<open>utils\<close> the notebook's helper module,
  \<^verbatim>\<open>np\<close> the numerics library, and \<^verbatim>\<open>!cat\<close> a shell command.  The calls of the
  deep-learning framework are inside the functions of the model script.
\<close>

datatype interface = Platform_SDK | Framework_API | Helper_module | Numerics_library | Shell_command

fun interface_of :: "call \<Rightarrow> interface" where
  "interface_of Session = Platform_SDK"
| "interface_of Get_execution_role = Platform_SDK"
| "interface_of Cifar10_download = Helper_module"
| "interface_of (Upload_data _ _ _) = Platform_SDK"
| "interface_of (Shell _) = Shell_command"
| "interface_of (TensorFlow _) = Platform_SDK"
| "interface_of (Fit _ _) = Platform_SDK"
| "interface_of (Deploy _ _ _) = Platform_SDK"
| "interface_of (Randn _) = Numerics_library"
| "interface_of (Predict _ _) = Platform_SDK"
| "interface_of (Delete_endpoint _ _) = Platform_SDK"

text \<open>The interfaces the specification enumerates.\<close>

definition enumerated :: "call \<Rightarrow> bool" where
  "enumerated c = (interface_of c = Platform_SDK \<or> interface_of c = Framework_API)"

text \<open>An environment in which the training job fails.\<close>

definition fit_fails_env :: "string env" where
  "fit_fails_env =
     quiet_env\<lparr>raises := (\<lambda>n c. case c of Fit _ _ \<Rightarrow> Some ''UnexpectedStatusException'' | _ \<Rightarrow> None)\<rparr>"

text \<open>The dictionary the notebook passes as \<^verbatim>\<open>hyperparameters\<close>.\<close>

definition notebook_hyperparameters :: "(string \<times> pyval) list" where
  "notebook_hyperparameters = [(''learning_rate'', PyFloat 1 (-4)), (''decay'', PyFloat 1 (-6))]"

section \<open>Shared facts\<close>

lemmas call_defs = new_session_def get_execution_role_def cifar10_download_def upload_data_def
  shell_def new_estimator_def fit_def deploy_def randn_def predict_def delete_endpoint_def

lemmas cell_defs = set_up_the_environment_def download_the_dataset_def upload_the_dataset_def
  complete_source_code_def create_a_training_job_def deploy_the_trained_model_def
  make_some_predictions_def cleaning_up_def

lemma add_all_keras_layers:
  "add_all keras_layers Sequential =
     Inr \<lparr>layers = keras_layers, outputs = Some [NUM_CLASSES], compiled = None\<rparr>"
  by (simp add: keras_layers_def Sequential_def add_def HEIGHT_def WIDTH_def DEPTH_def
      NUM_CLASSES_def)

lemma keras_model_fn_eq:
  "keras_model_fn hp =
     (case hp ''learning_rate'' of
        None \<Rightarrow> Inl (KeyError ''learning_rate'')
      | Some lr \<Rightarrow>
          (case hp ''decay'' of
             None \<Rightarrow> Inl (KeyError ''decay'')
           | Some dc \<Rightarrow>
               Inr \<lparr>layers = keras_layers, outputs = Some [NUM_CLASSES],
                    compiled = Some \<lparr>loss = ''categorical_crossentropy'',
                                      optimizer = RMSPropOptimizer lr dc,
                                      metrics = [''accuracy'']\<rparr>\<rparr>))"
  by (simp add: keras_model_fn_def add_all_keras_layers getitem_def compile_def
      split: option.splits)

lemma predict_shape_keras_layers:
  "layers m = keras_layers \<Longrightarrow> predict_shape m [1, 32, 32, 3] = Some [1, 10]"
  by (simp add: predict_shape_def keras_layers_def HEIGHT_def WIDTH_def DEPTH_def
      NUM_CLASSES_def)

lemma run_journal:
  "journal (world_of (notebook env w)) =
     journal w @ (case first_raise env (length (journal w)) (document_order env) of
                    None \<Rightarrow> document_order env
                  | Some (i, e) \<Rightarrow> take (Suc i) (document_order env))"
  by (simp add: notebook_def cell_defs call_defs seq_def external_def Let_def world_of_def
      document_order_def the_session_def the_estimator_def split: option.splits)

lemma run_raised:
  "raised (notebook env w) =
     map_option snd (first_raise env (length (journal w)) (document_order env))"
  by (simp add: notebook_def cell_defs call_defs seq_def external_def Let_def raised_def
      document_order_def the_session_def the_estimator_def split: option.splits)

lemma issued_eq:
  "issued env w =
     (case first_raise env (length (journal w)) (document_order env) of
        None \<Rightarrow> document_order env
      | Some (i, e) \<Rightarrow> take (Suc i) (document_order env))"
  by (simp add: issued_def run_journal)

lemma issued_prefix: "prefix (issued env w) (document_order env)"
  by (simp add: issued_eq take_is_prefix split: option.splits)

lemma issued_complete:
  "first_raise env (length (journal w)) (document_order env) = None \<Longrightarrow>
   issued env w = document_order env"
  by (simp add: issued_eq)

lemma quiet_first_raise: "first_raise quiet_env n (document_order quiet_env) = None"
  by (simp add: quiet_env_def document_order_def)

lemma steps_of_prefixes:
  "prefix js (document_order env) \<Longrightarrow>
   prefix (steps_of js)
     [Create_session, Download_dataset, Upload_dataset, Train_model, Deploy_endpoint,
      Predict_once, Tear_down]"
proof -
  assume "prefix js (document_order env)"
  then have "js \<in> set (prefixes (document_order env))" by (simp add: in_set_prefixes)
  then show ?thesis
    by (auto simp add: document_order_def steps_of_def List.map_filter_simps)
qed

lemma first_raise_Some:
  "i < length cs \<Longrightarrow> raises env (n + i) (snd (cs ! i)) = Some e \<Longrightarrow>
   (\<forall>j<i. raises env (n + j) (snd (cs ! j)) = None) \<Longrightarrow>
   first_raise env n cs = Some (i, e)"
proof (induction cs arbitrary: n i)
  case Nil
  then show ?case by simp
next
  case (Cons c cs)
  show ?case
  proof (cases i)
    case 0
    with Cons.prems show ?thesis by simp
  next
    case (Suc k)
    from Cons.prems(3) Suc have c: "raises env n (snd c) = None" by force
    have "first_raise env (Suc n) cs = Some (k, e)"
    proof (rule Cons.IH)
      show "k < length cs" using Cons.prems(1) Suc by simp
      show "raises env (Suc n + k) (snd (cs ! k)) = Some e" using Cons.prems(2) Suc by simp
      show "\<forall>j<k. raises env (Suc n + j) (snd (cs ! j)) = None"
      proof (intro allI impI)
        fix j assume "j < k"
        then have "Suc j < i" using Suc by simp
        with Cons.prems(3) have "raises env (n + Suc j) (snd ((c # cs) ! Suc j)) = None" by blast
        then show "raises env (Suc n + j) (snd (cs ! j)) = None" by simp
      qed
    qed
    with c Suc show ?thesis by simp
  qed
qed

lemma first_raise_None:
  "(\<forall>j<length cs. raises env (n + j) (snd (cs ! j)) = None) \<Longrightarrow> first_raise env n cs = None"
proof (induction cs arbitrary: n)
  case Nil
  then show ?case by simp
next
  case (Cons c cs)
  from Cons.prems have c: "raises env n (snd c) = None" by force
  have "first_raise env (Suc n) cs = None"
  proof (rule Cons.IH, intro allI impI)
    fix j assume "j < length cs"
    then have "Suc j < length (c # cs)" by simp
    with Cons.prems have "raises env (n + Suc j) (snd ((c # cs) ! Suc j)) = None" by blast
    then show "raises env (Suc n + j) (snd (cs ! j)) = None" by simp
  qed
  with c show ?case by simp
qed

lemma notebook_InrD:
  "notebook env w = Inr (u, w') \<Longrightarrow>
   \<exists>sess rl inputs est p w1 w2 w3 w4 w5 w6 w7.
     set_up_the_environment env w = Inr ((sess, rl), w1)
   \<and> download_the_dataset env w1 = Inr ((), w2)
   \<and> upload_the_dataset env sess w2 = Inr (inputs, w3)
   \<and> complete_source_code env w3 = Inr ((), w4)
   \<and> create_a_training_job env rl inputs w4 = Inr (est, w5)
   \<and> deploy_the_trained_model env est w5 = Inr (p, w6)
   \<and> make_some_predictions env p w6 = Inr ((), w7)
   \<and> cleaning_up env p w7 = Inr ((), w')"
  by (auto simp add: notebook_def seq_def split: sum.splits prod.splits)

section \<open>The order of the steps\<close>

text \<open>
  Claim C1.  Run from the top, the notebook takes its steps in one fixed order: create the
  session and credentials, download the dataset, upload it, train (construct the estimator
  for the model script and call \<^verbatim>\<open>fit\<close>, which returns when the job has ended),
  deploy the endpoint, predict once, tear the endpoint down.  Whatever the services do,
  the calls issued are an initial segment of the calls in document order, so no step is
  issued before the steps above it; when no call raises, all seven steps are taken, each
  once and in this order.
\<close>

theorem notebook_steps_in_linear_order:
  "prefix (issued env w) (document_order env)
   \<and> prefix (steps_of (issued env w))
       [Create_session, Download_dataset, Upload_dataset, Train_model, Deploy_endpoint,
        Predict_once, Tear_down]
   \<and> (first_raise env (length (journal w)) (document_order env) = None \<longrightarrow>
        issued env w = document_order env
      \<and> steps_of (issued env w) =
          [Create_session, Download_dataset, Upload_dataset, Train_model, Deploy_endpoint,
           Predict_once, Tear_down])"
proof (intro conjI impI)
  show p: "prefix (issued env w) (document_order env)" by (rule issued_prefix)
  from p show "prefix (steps_of (issued env w))
       [Create_session, Download_dataset, Upload_dataset, Train_model, Deploy_endpoint,
        Predict_once, Tear_down]" by (rule steps_of_prefixes)
next
  assume n: "first_raise env (length (journal w)) (document_order env) = None"
  then show c: "issued env w = document_order env" by (rule issued_complete)
  show "steps_of (issued env w) =
          [Create_session, Download_dataset, Upload_dataset, Train_model, Deploy_endpoint,
           Predict_once, Tear_down]"
    unfolding c by (simp add: document_order_def steps_of_def List.map_filter_simps)
qed

theorem notebook_steps_in_linear_order_witness:
  "first_raise quiet_env (length (journal empty_world)) (document_order quiet_env) = None
   \<and> steps_of (issued quiet_env empty_world) =
       [Create_session, Download_dataset, Upload_dataset, Train_model, Deploy_endpoint,
        Predict_once, Tear_down]"
proof -
  have q: "first_raise quiet_env (length (journal empty_world)) (document_order quiet_env) = None"
    by (rule quiet_first_raise)
  with notebook_steps_in_linear_order [of quiet_env empty_world] show ?thesis
    by blast
qed

section \<open>Exceptions\<close>

text \<open>
  Claim C5.  The notebook catches nothing.  When the call at position \<open>i\<close> of the
  document order is the first that raises, with exception \<open>e\<close>, the run ends with
  exactly \<open>e\<close> and the calls issued are the first \<open>i + 1\<close> calls: the failing call
  is not repeated and no later call is made.  When no call raises, the run ends without
  an exception after all calls.
\<close>

theorem exceptions_propagate_unchanged:
  "(i < length (document_order env)
          \<and> raises env (length (journal w) + i) (snd (document_order env ! i)) = Some e
          \<and> (\<forall>j<i. raises env (length (journal w) + j) (snd (document_order env ! j)) = None)
       \<longrightarrow> raised (notebook env w) = Some e
         \<and> issued env w = take (Suc i) (document_order env))
   \<and> ((\<forall>j<length (document_order env).
          raises env (length (journal w) + j) (snd (document_order env ! j)) = None)
       \<longrightarrow> raised (notebook env w) = None \<and> issued env w = document_order env)"
proof (intro conjI impI)
  assume "i < length (document_order env)
          \<and> raises env (length (journal w) + i) (snd (document_order env ! i)) = Some e
          \<and> (\<forall>j<i. raises env (length (journal w) + j) (snd (document_order env ! j)) = None)"
  then have f: "first_raise env (length (journal w)) (document_order env) = Some (i, e)"
    by (simp add: first_raise_Some)
  show "raised (notebook env w) = Some e" by (simp add: run_raised f)
  show "issued env w = take (Suc i) (document_order env)" by (simp add: issued_eq f)
next
  assume "\<forall>j<length (document_order env).
          raises env (length (journal w) + j) (snd (document_order env ! j)) = None"
  then have f: "first_raise env (length (journal w)) (document_order env) = None"
    by (rule first_raise_None)
  show "raised (notebook env w) = None" by (simp add: run_raised f)
  show "issued env w = document_order env" by (simp add: issued_eq f)
qed

theorem exceptions_propagate_unchanged_witness:
  "raised (notebook fit_fails_env empty_world) = Some ''UnexpectedStatusException''
   \<and> map fst (issued fit_fails_env empty_world) =
       [Set_up_the_environment, Set_up_the_environment, Download_the_dataset,
        Upload_the_dataset, Complete_source_code, Create_a_training_job,
        Create_a_training_job]
   \<and> raised (notebook quiet_env empty_world) = None
   \<and> issued quiet_env empty_world = document_order quiet_env"
proof -
  have l: "length (document_order fit_fails_env) = 12" by (simp add: document_order_def)
  have a: "raises fit_fails_env (length (journal empty_world) + 6)
             (snd (document_order fit_fails_env ! 6)) = Some ''UnexpectedStatusException''"
    by (simp add: fit_fails_env_def document_order_def)
  have b: "\<forall>j<6. raises fit_fails_env (length (journal empty_world) + j)
             (snd (document_order fit_fails_env ! j)) = None"
  proof (intro allI impI)
    fix j :: nat assume "j < 6"
    then have "j = 0 \<or> j = 1 \<or> j = 2 \<or> j = 3 \<or> j = 4 \<or> j = 5" by arith
    then show "raises fit_fails_env (length (journal empty_world) + j)
             (snd (document_order fit_fails_env ! j)) = None"
      by (auto simp add: fit_fails_env_def document_order_def)
  qed
  from exceptions_propagate_unchanged [of 6 fit_fails_env empty_world "''UnexpectedStatusException''"] l a b
  have "raised (notebook fit_fails_env empty_world) = Some ''UnexpectedStatusException''
        \<and> issued fit_fails_env empty_world = take (Suc 6) (document_order fit_fails_env)"
    by simp
  then have failing: "raised (notebook fit_fails_env empty_world) = Some ''UnexpectedStatusException''
        \<and> map fst (issued fit_fails_env empty_world) =
            [Set_up_the_environment, Set_up_the_environment, Download_the_dataset,
             Upload_the_dataset, Complete_source_code, Create_a_training_job,
             Create_a_training_job]"
    by (simp add: document_order_def)
  have c: "\<forall>j<length (document_order quiet_env).
             raises quiet_env (length (journal empty_world) + j)
               (snd (document_order quiet_env ! j)) = None"
    by (simp add: quiet_env_def)
  from exceptions_propagate_unchanged [of 0 quiet_env empty_world] c
  have "raised (notebook quiet_env empty_world) = None
        \<and> issued quiet_env empty_world = document_order quiet_env"
    by blast
  with failing show ?thesis by blast
qed

lemma in_prefix_set: "prefix xs ys \<Longrightarrow> x \<in> set xs \<Longrightarrow> x \<in> set ys"
  using set_mono_prefix by blast

lemma map_filter_prefix: "prefix xs ys \<Longrightarrow> prefix (List.map_filter f xs) (List.map_filter f ys)"
  by (auto simp add: prefix_def List.map_filter_def)

lemma document_prediction_requests:
  "prediction_requests (document_order env) =
     [(\<lparr>endpoint = endpoint_name env\<rparr>, [(''inputs_input'', \<lparr>shape = [1, 32, 32, 3]\<rparr>)])]"
  by (simp add: prediction_requests_def document_order_def List.map_filter_simps)

lemma issued_prediction_requests:
  "prefix (prediction_requests (issued env w))
     [(\<lparr>endpoint = endpoint_name env\<rparr>, [(''inputs_input'', \<lparr>shape = [1, 32, 32, 3]\<rparr>)])]"
  using map_filter_prefix [OF issued_prefix, of prediction_request env w]
  by (simp add: prediction_requests_def [symmetric] document_prediction_requests)

section \<open>The prediction request\<close>

text \<open>
  The request the notebook sends and the placeholder of \<^verbatim>\<open>serving_input_fn\<close>.  What
  the endpoint answers is decided by the hosted service and is not part of this
  development.
\<close>

lemma complete_run_prediction_requests:
  "first_raise env (length (journal w)) (document_order env) = None \<Longrightarrow>
   prediction_requests (issued env w) =
     [(\<lparr>endpoint = endpoint_name env\<rparr>, [(''inputs_input'', \<lparr>shape = [1, 32, 32, 3]\<rparr>)])]"
  by (simp add: issued_complete document_prediction_requests)

lemma sample_fits_placeholder:
  "map (\<lambda>kt. dims (snd kt)) (receiver_tensors (serving_input_fn INPUT_TENSOR_NAME params)) =
     [[None, Some HEIGHT, Some WIDTH, Some DEPTH]]
   \<and> list_all (\<lambda>kt. fits (dims (snd kt)) [1, 32, 32, 3])
        (receiver_tensors (serving_input_fn INPUT_TENSOR_NAME params))"
  by (simp add: serving_input_fn_def placeholder_def Let_def HEIGHT_def WIDTH_def DEPTH_def)

lemma serving_key:
  "map fst (receiver_tensors (serving_input_fn INPUT_TENSOR_NAME params)) = [INPUT_TENSOR_NAME]"
  by (simp add: serving_input_fn_def Let_def)

lemma request_key_is_input_layer_name:
  assumes "keras_model_fn hp = Inr m"
    and "pr \<in> set (prediction_requests (issued env w))"
  shows "input_layer_name m = Some (''inputs'' @ ''_input'')
       \<and> map (\<lambda>kv. Some (fst kv)) (snd pr) = [input_layer_name m]"
proof -
  from assms(1) have "layers m = keras_layers"
    by (auto simp add: keras_model_fn_eq split: option.splits)
  then have i: "input_layer_name m = Some ''inputs_input''"
    by (simp add: input_layer_name_def keras_layers_def)
  from issued_prediction_requests [of env w] assms(2)
  have "pr \<in> set [(\<lparr>endpoint = endpoint_name env\<rparr>,
                    [(''inputs_input'', \<lparr>shape = [1, 32, 32, 3]\<rparr>)])]"
    by (rule in_prefix_set)
  with i show ?thesis by simp
qed

lemma keras_model_fn_notebook:
  "keras_model_fn (map_of notebook_hyperparameters) =
     Inr \<lparr>layers = keras_layers, outputs = Some [NUM_CLASSES],
          compiled = Some \<lparr>loss = ''categorical_crossentropy'',
                            optimizer = RMSPropOptimizer (PyFloat 1 (-4)) (PyFloat 1 (-6)),
                            metrics = [''accuracy'']\<rparr>\<rparr>"
  by (simp add: keras_model_fn_eq notebook_hyperparameters_def)

section \<open>The dimensions of the model\<close>

text \<open>
  Claim C3.  A model returned by \<^verbatim>\<open>keras_model_fn\<close> has a first layer that takes
  images of shape HEIGHT x WIDTH x DEPTH = 32 x 32 x 3 and ends in
  \<^verbatim>\<open>Dense(NUM_CLASSES)\<close> and a softmax, with NUM_CLASSES = 10; its output has ten
  scores, and the fake data of shape (1, 32, 32, 3) passes through it to shape (1, 10).
\<close>

theorem keras_model_dimensions:
  assumes "keras_model_fn hp = Inr m"
  shows "map input_shape (take 1 (layers m)) = [Some [HEIGHT, WIDTH, DEPTH]]
       \<and> [HEIGHT, WIDTH, DEPTH] = [32, 32, 3]
       \<and> drop (length (layers m) - 2) (layers m) = [Dense NUM_CLASSES, Activation ''softmax'']
       \<and> NUM_CLASSES = 10
       \<and> outputs m = Some [10]
       \<and> predict_shape m [1, 32, 32, 3] = Some [1, 10]"
proof -
  from assms have l: "layers m = keras_layers" and o: "outputs m = Some [NUM_CLASSES]"
    by (auto simp add: keras_model_fn_eq split: option.splits)
  have "predict_shape m [1, 32, 32, 3] = Some [1, 10]"
    using l by (rule predict_shape_keras_layers)
  then show ?thesis
    unfolding l o
    by (simp add: keras_layers_def HEIGHT_def WIDTH_def DEPTH_def NUM_CLASSES_def)
qed

theorem keras_model_dimensions_witness:
  "\<exists>m. keras_model_fn (map_of notebook_hyperparameters) = Inr m
     \<and> map input_shape (take 1 (layers m)) = [Some [32, 32, 3]]
     \<and> drop (length (layers m) - 2) (layers m) = [Dense 10, Activation ''softmax'']
     \<and> predict_shape m [1, 32, 32, 3] = Some [1, 10]"
  using keras_model_dimensions [OF keras_model_fn_notebook]
  by (simp add: keras_model_fn_notebook HEIGHT_def WIDTH_def DEPTH_def NUM_CLASSES_def)

lemma document_training_estimators:
  "training_estimators (document_order env) = [the_estimator env, the_estimator env]"
  by (simp add: training_estimators_def document_order_def List.map_filter_simps)

lemma issued_training_estimators:
  "prefix (training_estimators (issued env w)) [the_estimator env, the_estimator env]"
  using map_filter_prefix [OF issued_prefix, of training_estimator env w]
  by (simp add: training_estimators_def [symmetric] document_training_estimators)

lemma document_submitted_jobs:
  "submitted_jobs (document_order env) = [the_estimator env]"
  by (simp add: submitted_jobs_def document_order_def List.map_filter_simps)

lemma issued_submitted_jobs:
  "prefix (submitted_jobs (issued env w)) [the_estimator env]"
  using map_filter_prefix [OF issued_prefix, of submitted_job env w]
  by (simp add: submitted_jobs_def [symmetric] document_submitted_jobs)

section \<open>The hyperparameters\<close>

text \<open>
  Claim C4.  Every estimator the notebook constructs or fits carries the hyperparameters
  \<^verbatim>\<open>{'learning_rate': 1e-4, 'decay': 1e-6}\<close>: two names, each with a numeric scalar,
  nothing nested.  \<^verbatim>\<open>keras_model_fn\<close> reads its argument only at these two names:
  two dictionaries that agree there give the same result.
\<close>

theorem hyperparameters_flat_and_read_by_name:
  "(\<forall>est \<in> set (training_estimators (issued env w)).
      hyperparameters est = [(''learning_rate'', PyFloat 1 (-4)), (''decay'', PyFloat 1 (-6))]
    \<and> flat (hyperparameters est)
    \<and> list_all (\<lambda>kv. is_numeric (snd kv)) (hyperparameters est))
   \<and> (first_raise env (length (journal w)) (document_order env) = None \<longrightarrow>
        training_estimators (issued env w) \<noteq> [])
   \<and> (hp ''learning_rate'' = hp' ''learning_rate'' \<and> hp ''decay'' = hp' ''decay'' \<longrightarrow>
        keras_model_fn hp = keras_model_fn hp')"
proof (intro conjI ballI impI)
  fix est
  assume "est \<in> set (training_estimators (issued env w))"
  with issued_training_estimators [of env w]
  have "est \<in> set [the_estimator env, the_estimator env]" by (rule in_prefix_set)
  then have e: "est = the_estimator env" by simp
  show "hyperparameters est = [(''learning_rate'', PyFloat 1 (-4)), (''decay'', PyFloat 1 (-6))]"
    by (simp add: e the_estimator_def)
  then show "flat (hyperparameters est)"
    and "list_all (\<lambda>kv. is_numeric (snd kv)) (hyperparameters est)"
    by (simp_all add: flat_def)
next
  assume "first_raise env (length (journal w)) (document_order env) = None"
  then have "issued env w = document_order env" by (rule issued_complete)
  then show "training_estimators (issued env w) \<noteq> []"
    by (simp add: document_training_estimators)
next
  assume "hp ''learning_rate'' = hp' ''learning_rate'' \<and> hp ''decay'' = hp' ''decay''"
  then have "hp ''learning_rate'' = hp' ''learning_rate''" and "hp ''decay'' = hp' ''decay''"
    by simp_all
  then show "keras_model_fn hp = keras_model_fn hp'"
    by (simp add: keras_model_fn_eq split: option.splits)
qed

theorem hyperparameters_flat_and_read_by_name_witness:
  "the_estimator quiet_env \<in> set (training_estimators (issued quiet_env empty_world))
   \<and> flat (hyperparameters (the_estimator quiet_env))
   \<and> keras_model_fn (map_of notebook_hyperparameters) =
       keras_model_fn (map_of (notebook_hyperparameters @ [(''momentum'', PyList [])]))"
proof -
  have q: "first_raise quiet_env (length (journal empty_world)) (document_order quiet_env) = None"
    by (rule quiet_first_raise)
  then have "issued quiet_env empty_world = document_order quiet_env" by (rule issued_complete)
  then have m: "the_estimator quiet_env \<in> set (training_estimators (issued quiet_env empty_world))"
    by (simp add: document_training_estimators)
  have a: "map_of notebook_hyperparameters ''learning_rate'' =
           map_of (notebook_hyperparameters @ [(''momentum'', PyList [])]) ''learning_rate''
         \<and> map_of notebook_hyperparameters ''decay'' =
           map_of (notebook_hyperparameters @ [(''momentum'', PyList [])]) ''decay''"
    by (simp add: notebook_hyperparameters_def)
  from hyperparameters_flat_and_read_by_name [of quiet_env empty_world
      "map_of notebook_hyperparameters"
      "map_of (notebook_hyperparameters @ [(''momentum'', PyList [])])"] m a
  show ?thesis by blast
qed

section \<open>What the model function returns\<close>

text \<open>
  Claim C9.  On a dictionary that has both \<^verbatim>\<open>learning_rate\<close> and \<^verbatim>\<open>decay\<close>,
  \<^verbatim>\<open>keras_model_fn\<close> returns the Sequential model with its layers added, compiled
  with the categorical cross-entropy loss, an RMSProp optimizer made of exactly these two
  values, and the accuracy metric.  When a key is missing it raises \<^verbatim>\<open>KeyError\<close> for
  that key (for \<^verbatim>\<open>learning_rate\<close> when both are missing) and returns no model.
\<close>

theorem keras_model_fn_compiles_or_raises:
  "(hp ''learning_rate'' = Some lr \<and> hp ''decay'' = Some dc \<longrightarrow>
      (\<exists>m. keras_model_fn hp = Inr m
          \<and> add_all keras_layers Sequential = Inr (m\<lparr>compiled := None\<rparr>)
          \<and> compiled m = Some \<lparr>loss = ''categorical_crossentropy'',
                                optimizer = RMSPropOptimizer lr dc,
                                metrics = [''accuracy'']\<rparr>))
   \<and> (hp ''learning_rate'' = None \<longrightarrow> keras_model_fn hp = Inl (KeyError ''learning_rate''))
   \<and> (hp ''learning_rate'' \<noteq> None \<and> hp ''decay'' = None \<longrightarrow>
        keras_model_fn hp = Inl (KeyError ''decay''))"
  by (auto simp add: keras_model_fn_eq add_all_keras_layers)

theorem keras_model_fn_compiles_or_raises_witness:
  "(\<exists>m. keras_model_fn (map_of notebook_hyperparameters) = Inr m
       \<and> compiled m = Some \<lparr>loss = ''categorical_crossentropy'',
                             optimizer = RMSPropOptimizer (PyFloat 1 (-4)) (PyFloat 1 (-6)),
                             metrics = [''accuracy'']\<rparr>)
   \<and> keras_model_fn Map.empty = Inl (KeyError ''learning_rate'')
   \<and> keras_model_fn (map_of [(''learning_rate'', PyFloat 1 (-4))]) = Inl (KeyError ''decay'')"
proof -
  have a: "map_of notebook_hyperparameters ''learning_rate'' = Some (PyFloat 1 (-4))
         \<and> map_of notebook_hyperparameters ''decay'' = Some (PyFloat 1 (-6))"
    by (simp add: notebook_hyperparameters_def)
  have b: "(Map.empty :: string \<rightharpoonup> pyval) ''learning_rate'' = None" by simp
  have c: "map_of [(''learning_rate'', PyFloat 1 (-4))] ''learning_rate'' \<noteq> None
         \<and> map_of [(''learning_rate'', PyFloat 1 (-4))] ''decay'' = None"
    by simp
  from keras_model_fn_compiles_or_raises [of "map_of notebook_hyperparameters"
         "PyFloat 1 (-4)" "PyFloat 1 (-6)"] a
       keras_model_fn_compiles_or_raises [of Map.empty] b
       keras_model_fn_compiles_or_raises [of "map_of [(''learning_rate'', PyFloat 1 (-4))]"] c
  show ?thesis by blast
qed

section \<open>The size of the training job\<close>

text \<open>
  Claim C10.  Every estimator the notebook constructs or fits asks for one training
  instance: the notebook submits at most one training job, exactly one when no call
  raises, and that job is single-instance.
\<close>

theorem training_job_is_single_instance:
  "(\<forall>est \<in> set (training_estimators (issued env w)). train_instance_count est = 1)
   \<and> prefix (map train_instance_count (submitted_jobs (issued env w))) [1]
   \<and> (first_raise env (length (journal w)) (document_order env) = None \<longrightarrow>
        map train_instance_count (submitted_jobs (issued env w)) = [1])"
proof (intro conjI ballI impI)
  fix est
  assume "est \<in> set (training_estimators (issued env w))"
  with issued_training_estimators [of env w]
  have "est \<in> set [the_estimator env, the_estimator env]" by (rule in_prefix_set)
  then show "train_instance_count est = 1" by (auto simp add: the_estimator_def)
next
  have "prefix (map train_instance_count (submitted_jobs (issued env w)))
          (map train_instance_count [the_estimator env])"
    using issued_submitted_jobs by (rule map_mono_prefix)
  then show "prefix (map train_instance_count (submitted_jobs (issued env w))) [1]"
    by (simp add: the_estimator_def)
next
  assume "first_raise env (length (journal w)) (document_order env) = None"
  then have "issued env w = document_order env" by (rule issued_complete)
  then show "map train_instance_count (submitted_jobs (issued env w)) = [1]"
    by (simp add: document_submitted_jobs the_estimator_def)
qed

theorem training_job_is_single_instance_witness:
  "first_raise quiet_env (length (journal empty_world)) (document_order quiet_env) = None
   \<and> map train_instance_count (submitted_jobs (issued quiet_env empty_world)) = [1]"
proof -
  have q: "first_raise quiet_env (length (journal empty_world)) (document_order quiet_env) = None"
    by (rule quiet_first_raise)
  with training_job_is_single_instance [of quiet_env empty_world] show ?thesis
    by blast
qed

lemma quiet_issued: "issued quiet_env empty_world = document_order quiet_env"
  by (rule issued_complete) (rule quiet_first_raise)

section \<open>The interfaces the notebook calls\<close>

text \<open>
  Claim C6, as stated, fails: the notebook also downloads the dataset through its helper
  module \<^verbatim>\<open>utils\<close>, prints the model script with a shell command and draws the fake
  sample with \<^verbatim>\<open>np.random.randn\<close>; none of the three is a call of the platform's
  SDK or of the deep-learning framework.
\<close>

theorem external_calls_counterexample:
  "(Download_the_dataset, Cifar10_download) \<in> set (issued quiet_env empty_world)
   \<and> \<not> enumerated Cifar10_download
   \<and> (Complete_source_code, Shell ''cat cifar10_cnn.py'') \<in> set (issued quiet_env empty_world)
   \<and> \<not> enumerated (Shell ''cat cifar10_cnn.py'')
   \<and> (Make_some_predictions, Randn [1, 32, 32, 3]) \<in> set (issued quiet_env empty_world)
   \<and> \<not> enumerated (Randn [1, 32, 32, 3])"
  by (simp add: quiet_issued document_order_def enumerated_def)

text \<open>
  Claim C6, amended.  Every call the notebook issues is a call of the platform's SDK
  (session creation, execution role, data upload, estimator construction and fit, deploy,
  predict, delete endpoint) or of the deep-learning framework, or one of three further
  calls: \<^verbatim>\<open>utils.cifar10_download()\<close>, the shell command \<^verbatim>\<open>cat cifar10_cnn.py\<close>
  and \<^verbatim>\<open>np.random.randn(1, 32, 32, 3)\<close>.
\<close>

theorem external_calls_enumerated_or_local:
  "\<forall>c \<in> set (issued env w).
     enumerated (snd c)
   \<or> snd c = Cifar10_download
   \<or> snd c = Shell ''cat cifar10_cnn.py''
   \<or> snd c = Randn [1, 32, 32, 3]"
proof
  fix c
  assume "c \<in> set (issued env w)"
  with issued_prefix [of env w] have "c \<in> set (document_order env)" by (rule in_prefix_set)
  then show "enumerated (snd c) \<or> snd c = Cifar10_download
      \<or> snd c = Shell ''cat cifar10_cnn.py'' \<or> snd c = Randn [1, 32, 32, 3]"
    by (auto simp add: document_order_def enumerated_def)
qed

theorem external_calls_enumerated_or_local_witness:
  "(Cleaning_up, Delete_endpoint (the_session quiet_env) (endpoint_name quiet_env))
     \<in> set (issued quiet_env empty_world)
   \<and> enumerated (Delete_endpoint (the_session quiet_env) (endpoint_name quiet_env))"
proof -
  have m: "(Cleaning_up, Delete_endpoint (the_session quiet_env) (endpoint_name quiet_env))
     \<in> set (issued quiet_env empty_world)"
    by (simp add: quiet_issued document_order_def)
  with external_calls_enumerated_or_local [of quiet_env empty_world]
  have "enumerated (snd (Cleaning_up, Delete_endpoint (the_session quiet_env) (endpoint_name quiet_env)))
   \<or> snd (Cleaning_up, Delete_endpoint (the_session quiet_env) (endpoint_name quiet_env)) = Cifar10_download
   \<or> snd (Cleaning_up, Delete_endpoint (the_session quiet_env) (endpoint_name quiet_env)) = Shell ''cat cifar10_cnn.py''
   \<or> snd (Cleaning_up, Delete_endpoint (the_session quiet_env) (endpoint_name quiet_env)) = Randn [1, 32, 32, 3]"
    by (rule bspec)
  with m show ?thesis by simp
qed

section \<open>Tearing down\<close>

lemma external_InrD:
  "external env cl c r effect w = Inr (a, w') \<Longrightarrow>
   a = r \<and> w' = effect (w\<lparr>journal := journal w @ [(cl, c)]\<rparr>)"
  by (auto simp add: external_def Let_def split: option.splits)

lemma seq_InrE:
  assumes "seq m f w = Inr r"
  obtains a w1 where "m w = Inr (a, w1)" and "f a w1 = Inr r"
  using assms by (auto simp add: seq_def split: sum.splits)

lemma set_up_effect:
  "set_up_the_environment env w = Inr ((sess, rl), w') \<Longrightarrow>
   sess = the_session env \<and> rl = execution_role env \<and> endpoints w' = endpoints w
   \<and> buckets w' = buckets w \<and> objects w' = objects w \<and> training_jobs w' = training_jobs w"
  by (auto simp add: set_up_the_environment_def new_session_def get_execution_role_def
      the_session_def elim!: seq_InrE dest!: external_InrD)

lemma download_effect:
  "download_the_dataset env w = Inr (u, w') \<Longrightarrow>
   endpoints w' = endpoints w \<and> buckets w' = buckets w \<and> objects w' = objects w \<and> training_jobs w' = training_jobs w"
  by (auto simp add: download_the_dataset_def cifar10_download_def dest!: external_InrD)

lemma upload_effect:
  "upload_the_dataset env sess w = Inr (inputs, w') \<Longrightarrow>
   inputs = s3_uri (default_bucket sess) ''data/DEMO-cifar10''
   \<and> endpoints w' = endpoints w
   \<and> buckets w' = insert (default_bucket sess) (buckets w)
   \<and> objects w' = insert inputs (objects w)
   \<and> training_jobs w' = training_jobs w"
  by (auto simp add: upload_the_dataset_def upload_data_def dest!: external_InrD)

lemma source_code_effect:
  "complete_source_code env w = Inr (u, w') \<Longrightarrow>
   endpoints w' = endpoints w \<and> buckets w' = buckets w \<and> objects w' = objects w \<and> training_jobs w' = training_jobs w"
  by (auto simp add: complete_source_code_def shell_def dest!: external_InrD)

lemma training_effect:
  "create_a_training_job env rl inputs w = Inr (est, w') \<Longrightarrow>
   endpoints w' = endpoints w
   \<and> buckets w' = insert (bucket env) (buckets w)
   \<and> objects w' = insert (s3_uri (bucket env) (job_name env @ ''/output/model.tar.gz'')) (objects w)
   \<and> training_jobs w' = insert (job_name env) (training_jobs w)"
  by (auto simp add: create_a_training_job_def new_estimator_def fit_def
      elim!: seq_InrE dest!: external_InrD)

lemma deploy_effect:
  "deploy_the_trained_model env est w = Inr (p, w') \<Longrightarrow>
   endpoint p = endpoint_name env
   \<and> endpoints w' = insert (endpoint p) (endpoints w)
   \<and> journal w' = journal w @ [(Deploy_the_trained_model, Deploy est 1 ''ml.m4.xlarge'')]
   \<and> buckets w' = buckets w \<and> objects w' = objects w \<and> training_jobs w' = training_jobs w"
  by (auto simp add: deploy_the_trained_model_def deploy_def dest!: external_InrD)

lemma predictions_effect:
  "make_some_predictions env p w = Inr (u, w') \<Longrightarrow>
   endpoints w' = endpoints w
   \<and> buckets w' = buckets w \<and> objects w' = objects w \<and> training_jobs w' = training_jobs w"
  by (auto simp add: make_some_predictions_def randn_def predict_def
      elim!: seq_InrE dest!: external_InrD)

lemma cleaning_up_effect:
  "cleaning_up env p w = Inr (u, w') \<Longrightarrow>
   w' = w\<lparr>journal := journal w @ [(Cleaning_up, Session),
              (Cleaning_up, Delete_endpoint (the_session env) (endpoint p))],
          endpoints := endpoints w - {endpoint p}\<rparr>"
  by (auto simp add: cleaning_up_def new_session_def delete_endpoint_def the_session_def
      elim!: seq_InrE dest!: external_InrD)

text \<open>
  Claim C7.  In a run that reaches its end, the deploy cell is run in the world the cells
  above it leave, makes the \<^verbatim>\<open>deploy\<close> call and adds one endpoint, the one of the
  predictor it returns.  The cleaning-up cell makes two calls, a new session and
  \<^verbatim>\<open>delete_endpoint\<close> on \<^verbatim>\<open>predictor.endpoint\<close> of that predictor.  At the end
  the endpoints are those the run started with, without the deployed one; the buckets,
  the stored objects (the uploaded dataset and the training job's artifacts among them),
  the training jobs, the models and the endpoint configurations are as the prediction
  cell left them.
\<close>

theorem cleaning_up_deletes_only_the_deployed_endpoint:
  assumes "notebook env w = Inr (u, w')"
  shows "\<exists>est p w5 w6 w7.
           notebook_through_training env w = Inr (est, w5)
         \<and> endpoints w5 = endpoints w
         \<and> deploy_the_trained_model env est w5 = Inr (p, w6)
         \<and> journal w6 = journal w5 @ [(Deploy_the_trained_model, Deploy est 1 ''ml.m4.xlarge'')]
         \<and> endpoint p = endpoint_name env
         \<and> endpoints w6 = insert (endpoint p) (endpoints w5)
         \<and> make_some_predictions env p w6 = Inr ((), w7)
         \<and> endpoints w7 = endpoints w6
         \<and> cleaning_up env p w7 = Inr ((), w')
         \<and> journal w' = journal w7 @ [(Cleaning_up, Session),
               (Cleaning_up, Delete_endpoint (the_session env) (endpoint p))]
         \<and> endpoints w' = endpoints w7 - {endpoint p}
         \<and> endpoints w' = endpoints w - {endpoint p}
         \<and> local_dirs w' = local_dirs w7
         \<and> buckets w' = buckets w7
         \<and> objects w' = objects w7
         \<and> training_jobs w' = training_jobs w7
         \<and> models w' = models w7
         \<and> endpoint_configs w' = endpoint_configs w7
         \<and> bucket env \<in> buckets w'
         \<and> s3_uri (bucket env) ''data/DEMO-cifar10'' \<in> objects w'
         \<and> s3_uri (bucket env) (job_name env @ ''/output/model.tar.gz'') \<in> objects w'
         \<and> job_name env \<in> training_jobs w'"
proof -
  from notebook_InrD [OF assms] obtain sess rl inputs est p w1 w2 w3 w4 w5 w6 w7 where
    c1: "set_up_the_environment env w = Inr ((sess, rl), w1)" and
    c2: "download_the_dataset env w1 = Inr ((), w2)" and
    c3: "upload_the_dataset env sess w2 = Inr (inputs, w3)" and
    c4: "complete_source_code env w3 = Inr ((), w4)" and
    c5: "create_a_training_job env rl inputs w4 = Inr (est, w5)" and
    c6: "deploy_the_trained_model env est w5 = Inr (p, w6)" and
    c7: "make_some_predictions env p w6 = Inr ((), w7)" and
    c8: "cleaning_up env p w7 = Inr ((), w')"
    by blast
  note e1 = set_up_effect [OF c1] and e2 = download_effect [OF c2]
    and e3 = upload_effect [OF c3] and e4 = source_code_effect [OF c4]
    and e5 = training_effect [OF c5] and e6 = deploy_effect [OF c6]
    and e7 = predictions_effect [OF c7]
  have t: "notebook_through_training env w = Inr (est, w5)"
    by (simp add: notebook_through_training_def seq_def c1 c2 c3 c4 c5)
  have s5: "endpoints w5 = endpoints w"
    using e1 e2 e3 e4 e5 by simp
  have w': "w' = w7\<lparr>journal := journal w7 @ [(Cleaning_up, Session),
              (Cleaning_up, Delete_endpoint (the_session env) (endpoint p))],
          endpoints := endpoints w7 - {endpoint p}\<rparr>"
    using c8 by (rule cleaning_up_effect)
  have b: "bucket env \<in> buckets w7"
    using e5 e6 e7 by simp
  have d: "s3_uri (bucket env) ''data/DEMO-cifar10'' \<in> objects w7"
    using e1 e3 e4 e5 e6 e7 by (simp add: the_session_def)
  have a: "s3_uri (bucket env) (job_name env @ ''/output/model.tar.gz'') \<in> objects w7"
    using e5 e6 e7 by simp
  have j: "job_name env \<in> training_jobs w7"
    using e5 e6 e7 by simp
  have frame: "journal w' = journal w7 @ [(Cleaning_up, Session),
               (Cleaning_up, Delete_endpoint (the_session env) (endpoint p))]
         \<and> endpoints w' = endpoints w7 - {endpoint p}
         \<and> local_dirs w' = local_dirs w7
         \<and> buckets w' = buckets w7
         \<and> objects w' = objects w7
         \<and> training_jobs w' = training_jobs w7
         \<and> models w' = models w7
         \<and> endpoint_configs w' = endpoint_configs w7"
    by (simp add: w')
  from e6 have dep: "journal w6 = journal w5 @ [(Deploy_the_trained_model, Deploy est 1 ''ml.m4.xlarge'')]
         \<and> endpoint p = endpoint_name env
         \<and> endpoints w6 = insert (endpoint p) (endpoints w5)"
    by simp
  from e7 have s7: "endpoints w7 = endpoints w6" by simp
  have net: "endpoints w' = endpoints w - {endpoint p}"
    using frame s7 dep s5 by auto
  from frame b d a j have rest: "bucket env \<in> buckets w'
         \<and> s3_uri (bucket env) ''data/DEMO-cifar10'' \<in> objects w'
         \<and> s3_uri (bucket env) (job_name env @ ''/output/model.tar.gz'') \<in> objects w'
         \<and> job_name env \<in> training_jobs w'"
    by simp
  from t s5 c6 dep c7 s7 c8 frame net rest
  have "notebook_through_training env w = Inr (est, w5)
         \<and> endpoints w5 = endpoints w
         \<and> deploy_the_trained_model env est w5 = Inr (p, w6)
         \<and> journal w6 = journal w5 @ [(Deploy_the_trained_model, Deploy est 1 ''ml.m4.xlarge'')]
         \<and> endpoint p = endpoint_name env
         \<and> endpoints w6 = insert (endpoint p) (endpoints w5)
         \<and> make_some_predictions env p w6 = Inr ((), w7)
         \<and> endpoints w7 = endpoints w6
         \<and> cleaning_up env p w7 = Inr ((), w')
         \<and> journal w' = journal w7 @ [(Cleaning_up, Session),
               (Cleaning_up, Delete_endpoint (the_session env) (endpoint p))]
         \<and> endpoints w' = endpoints w7 - {endpoint p}
         \<and> endpoints w' = endpoints w - {endpoint p}
         \<and> local_dirs w' = local_dirs w7
         \<and> buckets w' = buckets w7
         \<and> objects w' = objects w7
         \<and> training_jobs w' = training_jobs w7
         \<and> models w' = models w7
         \<and> endpoint_configs w' = endpoint_configs w7
         \<and> bucket env \<in> buckets w'
         \<and> s3_uri (bucket env) ''data/DEMO-cifar10'' \<in> objects w'
         \<and> s3_uri (bucket env) (job_name env @ ''/output/model.tar.gz'') \<in> objects w'
         \<and> job_name env \<in> training_jobs w'"
    by (elim conjE) (intro conjI)
  then show ?thesis by (intro exI)
qed

lemma quiet_notebook: "\<exists>w'. notebook quiet_env empty_world = Inr ((), w')"
proof -
  have "raised (notebook quiet_env empty_world) = None"
    by (simp add: run_raised quiet_first_raise)
  then show ?thesis
    by (cases "notebook quiet_env empty_world") (auto simp add: raised_def)
qed

theorem cleaning_up_deletes_only_the_deployed_endpoint_witness:
  "\<exists>(w6 :: world) w'. notebook quiet_env empty_world = Inr ((), w')
     \<and> endpoints w6 = {''sagemaker-tensorflow-endpoint''}
     \<and> endpoints w' = {}
     \<and> s3_uri (bucket quiet_env) ''data/DEMO-cifar10'' \<in> objects w'"
proof -
  from quiet_notebook obtain w' where n: "notebook quiet_env empty_world = Inr ((), w')" ..
  from cleaning_up_deletes_only_the_deployed_endpoint [OF n] show ?thesis
  proof (elim exE conjE)
    fix p :: predictor and w5 w6 :: world
    assume "endpoints w5 = endpoints empty_world"
      and "endpoint p = endpoint_name quiet_env"
      and "endpoints w6 = insert (endpoint p) (endpoints w5)"
      and "endpoints w' = endpoints empty_world - {endpoint p}"
      and o: "s3_uri (bucket quiet_env) ''data/DEMO-cifar10'' \<in> objects w'"
    then have e6: "endpoints w6 = {''sagemaker-tensorflow-endpoint''}"
      and e': "endpoints w' = {}"
      by (simp_all add: quiet_env_def empty_world_def)
    from n e6 e' o
    have "notebook quiet_env empty_world = Inr ((), w')
        \<and> endpoints w6 = {''sagemaker-tensorflow-endpoint''}
        \<and> endpoints w' = {}
        \<and> s3_uri (bucket quiet_env) ''data/DEMO-cifar10'' \<in> objects w'"
      by (intro conjI)
    then show ?thesis by (intro exI)
  qed
qed

end
